theory Spec2Isabelle
  imports Complex_Main "HOL-Library.Char_ord" "HOL-Library.List_Lexorder" "HOL-Library.Multiset"
begin

section \<open>Text analysis utilities (utils/analysis.py)\<close>

text \<open>
  The module computes vocabulary statistics, TF-IDF matrices, top-term lists and
  two-dimensional similarity projections. Weights and scores are Python floats; they are
  read here as exact rationals, so rounding and NaN are outside the model. Exceptions are
  values of the type \<open>error\<close>; a function that can raise returns \<open>error + 'a\<close>.
\<close>

subsection \<open>Exceptions and Python sequence operations\<close>

datatype error =
    ValueError string
  | KeyError string
  | IndexError
  | UnboundLocalError string

type_synonym matrix = "rat list list"
type_synonym coords = "(rat \<times> rat) list"

text \<open>The slice \<^verbatim>\<open>xs[s:]\<close>: a negative start counts from the end and is clipped at 0.\<close>

definition py_slice_from :: "'a list \<Rightarrow> int \<Rightarrow> 'a list" where
  "py_slice_from xs s =
     (let n = int (length xs);
          start = (if s < 0 then max 0 (n + s) else min s n)
      in drop (nat start) xs)"

text \<open>The slice \<^verbatim>\<open>xs[:e]\<close>: a negative stop counts from the end and is clipped at 0.\<close>

definition py_slice_to :: "'a list \<Rightarrow> int \<Rightarrow> 'a list" where
  "py_slice_to xs e =
     (let n = int (length xs);
          stop = (if e < 0 then max 0 (n + e) else min e n)
      in take (nat stop) xs)"

text \<open>
  Indexing a sequence with a list of non-negative positions
  (\<^verbatim>\<open>[labels[i] for i in top_indices]\<close>, \<^verbatim>\<open>coords[top_indices]\<close>):
  a position past the end raises IndexError.
\<close>

fun index_all :: "'a list \<Rightarrow> nat list \<Rightarrow> error + 'a list" where
  "index_all xs [] = Inr []"
| "index_all xs (i # is) =
     (if i < length xs
      then (case index_all xs is of Inl e \<Rightarrow> Inl e | Inr ys \<Rightarrow> Inr (xs ! i # ys))
      else Inl IndexError)"

subsection \<open>Matrices\<close>

text \<open>
  A matrix is the list of its rows, one row per document and one column per term. The
  number of columns is read off the first row.
\<close>

definition ncols :: "matrix \<Rightarrow> nat" where
  "ncols m = (case m of [] \<Rightarrow> 0 | r # _ \<Rightarrow> length r)"

text \<open>\<^verbatim>\<open>m.mean(axis=0).A1\<close>: one mean per column, taken over the rows.\<close>

definition mean_axis0 :: "matrix \<Rightarrow> rat list" where
  "mean_axis0 m = map (\<lambda>j. sum_list (map (\<lambda>r. r ! j) m) / of_nat (length m)) [0..<ncols m]"

text \<open>\<^verbatim>\<open>m.mean(axis=1).A1\<close>: one mean per row, taken over the columns.\<close>

definition mean_axis1 :: "matrix \<Rightarrow> rat list" where
  "mean_axis1 m = map (\<lambda>r. sum_list r / of_nat (ncols m)) m"

text \<open>\<^verbatim>\<open>m.T\<close>: the columns as rows.\<close>

definition transpose_matrix :: "matrix \<Rightarrow> matrix" where
  "transpose_matrix m = map (\<lambda>j. map (\<lambda>r. r ! j) m) [0..<ncols m]"

subsection \<open>The library's estimators\<close>

text \<open>
  The embeddings (scikit-learn's TSNE and MDS), the cosine similarity, and
  \<^verbatim>\<open>split_label\<close> and \<^verbatim>\<open>preprocess_text\<close> of \<^verbatim>\<open>utils.text_processor\<close> are not part of this
  module. They are parameters of the model, collected in one record, together with the
  vectorizer's tokenizer (lower-casing and token pattern), the two English stop-word lists
  (scikit-learn's and NLTK's) and the TF-IDF weighting of a count matrix (logarithms and
  square roots). An estimator object is the value of its constructor arguments.

  The last parameter belongs to NumPy. Its default sort, \<^verbatim>\<open>kind='quicksort'\<close>, which
  \<^verbatim>\<open>argsort\<close> and pandas' \<^verbatim>\<open>sort_values\<close> run, promises no order among entries of equal
  key; the order it leaves them in is \<open>sort_ties\<close>: for a key column \<open>keys\<close>,
  \<open>sort_ties lib keys i\<close> is the rank of the entry at position \<open>i\<close> among the entries that
  have its key.
\<close>

datatype estimator =
    TSNE (n_components: nat) (perplexity: rat) (random_state: nat)
  | MDS (n_components: nat) (dissimilarity: string) (random_state: nat)

record library =
  fit_transform :: "estimator \<Rightarrow> matrix \<Rightarrow> error + coords"
  cosine_similarity :: "matrix \<Rightarrow> error + matrix"
  split_label :: "string \<Rightarrow> nat \<Rightarrow> string"
  preprocess_text :: "string \<Rightarrow> string"
  tokenize :: "string \<Rightarrow> string list"
  sklearn_english :: "string list"
  nltk_english :: "string list"
  tfidf_weights :: "nat list list \<Rightarrow> matrix"
  sort_ties :: "rat list \<Rightarrow> nat \<Rightarrow> nat"

subsection \<open>Sorting\<close>

text \<open>
  The ascending sort of rows by a key column, as \<^verbatim>\<open>argsort(kind='quicksort')\<close> leaves them:
  in ascending order of key, rows of equal key in ascending order of the rank that
  \<open>sort_ties\<close> gives their positions, and rows of equal key and equal rank in input order.
  A constant ranking is a stable sort. The key column is read as rationals.
\<close>

definition quicksort_rows :: "library \<Rightarrow> ('a \<Rightarrow> rat) \<Rightarrow> 'a list \<Rightarrow> 'a list" where
  "quicksort_rows lib key rows =
     sort_key key
       (map snd (sort_key (\<lambda>(i, r). sort_ties lib (map key rows) i) (enumerate 0 rows)))"

text \<open>\<^verbatim>\<open>v.argsort()\<close>: the positions of \<open>v\<close> in ascending order of their values.\<close>

definition argsort :: "library \<Rightarrow> rat list \<Rightarrow> nat list" where
  "argsort lib v = quicksort_rows lib (\<lambda>i. v ! i) [0..<length v]"

text \<open>\<^verbatim>\<open>v.argsort()[-n:][::-1]\<close>: the positions of the \<open>n\<close> largest values, largest first.\<close>

definition top_indices_of :: "library \<Rightarrow> rat list \<Rightarrow> int \<Rightarrow> nat list" where
  "top_indices_of lib v n = rev (py_slice_from (argsort lib v) (- n))"

subsection \<open>The vectorizer\<close>

text \<open>
  \<^verbatim>\<open>TfidfVectorizer\<close> is scikit-learn's. What the module reads from it is the fitted
  vocabulary, which the library builds as follows: every document is tokenized and its
  stop words are dropped; the vocabulary is the set of remaining tokens in sorted order,
  and an empty vocabulary raises ValueError; the count matrix has one row per document
  and one column per term. Terms whose document frequency is below \<^verbatim>\<open>min_df\<close> (or above
  \<^verbatim>\<open>max_df\<close>, here all documents) are masked out, and when more than \<^verbatim>\<open>max_features\<close>
  remain, only the \<^verbatim>\<open>max_features\<close> terms with the largest total counts stay. When nothing
  stays, ValueError is raised. \<^verbatim>\<open>min_df\<close> is an integer count here.
\<close>

definition analyze :: "library \<Rightarrow> string list \<Rightarrow> string \<Rightarrow> string list" where
  "analyze lib stop doc = filter (\<lambda>t. t \<notin> set stop) (tokenize lib doc)"

definition count_matrix :: "string list list \<Rightarrow> string list \<Rightarrow> nat list list" where
  "count_matrix docs vocabulary = map (\<lambda>d. map (\<lambda>t. count_list d t) vocabulary) docs"

definition document_frequency :: "nat list list \<Rightarrow> nat \<Rightarrow> nat" where
  "document_frequency X j = length (filter (\<lambda>r. r ! j \<noteq> 0) X)"

definition term_total :: "nat list list \<Rightarrow> nat \<Rightarrow> nat" where
  "term_total X j = sum_list (map (\<lambda>r. r ! j) X)"

text \<open>
  The mask of \<^verbatim>\<open>_limit_features\<close>, as the list of the indices it holds: those whose
  document frequency lies between \<open>low\<close> and \<open>high\<close>.
\<close>

definition df_mask :: "nat list list \<Rightarrow> nat \<Rightarrow> int \<Rightarrow> int \<Rightarrow> nat list" where
  "df_mask X n high low =
     filter (\<lambda>j. int (document_frequency X j) \<le> high \<and>
                  low \<le> int (document_frequency X j)) [0..<n]"

text \<open>
  The indices that stay (\<^verbatim>\<open>kept_indices = np.where(mask)[0]\<close>): the mask, cut down to the
  \<open>limit\<close> largest total counts (\<^verbatim>\<open>(-tfs[mask]).argsort()[:limit]\<close>) when it holds more than
  \<open>limit\<close> indices.
\<close>

definition kept_indices ::
  "library \<Rightarrow> nat list list \<Rightarrow> nat \<Rightarrow> int \<Rightarrow> int \<Rightarrow> int option \<Rightarrow> nat list" where
  "kept_indices lib X n high low limit =
     (let mask = df_mask X n high low
      in case limit of
           None \<Rightarrow> mask
         | Some k \<Rightarrow>
             (if k < int (length mask)
              then (let mask_inds =
                          py_slice_to
                            (quicksort_rows lib (\<lambda>j. - rat_of_nat (term_total X j)) mask) k
                    in filter (\<lambda>j. j \<in> set mask_inds) [0..<n])
              else mask))"

definition limit_features ::
  "library \<Rightarrow> nat list list \<Rightarrow> string list \<Rightarrow> int \<Rightarrow> int \<Rightarrow> int option \<Rightarrow>
     error + (nat list list \<times> string list)" where
  "limit_features lib X vocabulary high low limit =
     (let kept = kept_indices lib X (length vocabulary) high low limit
      in if kept = []
         then Inl (ValueError ''After pruning, no terms remain. Try a lower min_df or a higher max_df.'')
         else Inr (map (\<lambda>r. map (\<lambda>j. r ! j) kept) X, map (\<lambda>j. vocabulary ! j) kept))"

definition fit_vocabulary ::
  "library \<Rightarrow> string list \<Rightarrow> int option \<Rightarrow> int \<Rightarrow> string list \<Rightarrow>
     error + (nat list list \<times> string list)" where
  "fit_vocabulary lib stop max_features min_df raw_documents =
     (if (case max_features of None \<Rightarrow> False | Some k \<Rightarrow> k \<le> 0)
      then Inl (ValueError ''The max_features parameter must be an int in the range [1, inf) or None.'')
      else
        (let docs = map (analyze lib stop) raw_documents;
             vocabulary = sort (remdups (concat docs));
             X = count_matrix docs vocabulary;
             max_doc_count = int (length raw_documents)
         in if vocabulary = []
            then Inl (ValueError ''empty vocabulary; perhaps the documents only contain stop words'')
            else if max_doc_count < min_df
            then Inl (ValueError ''max_df corresponds to < documents than min_df'')
            else limit_features lib X vocabulary max_doc_count min_df max_features))"

subsection \<open>analyze\_vocabulary\<close>

text \<open>
  \<^verbatim>\<open>Counter(words)\<close>: the distinct words in order of first occurrence, each with the number
  of times it occurs in the list.
\<close>

fun counter_add :: "(string \<times> nat) list \<Rightarrow> string \<Rightarrow> (string \<times> nat) list" where
  "counter_add [] w = [(w, 1)]"
| "counter_add ((v, c) # rest) w =
     (if v = w then (v, c + 1) # rest else (v, c) # counter_add rest w)"

definition Counter :: "string list \<Rightarrow> (string \<times> nat) list" where
  "Counter words = foldl counter_add [] words"

text \<open>
  \<^verbatim>\<open>sort_values(..., ascending=False)\<close>: pandas reverses the rows, sorts them in ascending
  order and reverses the result.
\<close>

definition sort_values_desc :: "library \<Rightarrow> ('a \<Rightarrow> rat) \<Rightarrow> 'a list \<Rightarrow> 'a list" where
  "sort_values_desc lib key rows = rev (quicksort_rows lib key (rev rows))"

fun cumsum_from :: "rat \<Rightarrow> rat list \<Rightarrow> rat list" where
  "cumsum_from acc [] = []"
| "cumsum_from acc (x # xs) = (acc + x) # cumsum_from (acc + x) xs"

definition cumsum :: "rat list \<Rightarrow> rat list" where
  "cumsum xs = cumsum_from 0 xs"

record freq_row =
  word :: string
  frequency :: nat
  percentage :: rat
  cumulative_percentage :: rat

record vocab_stats =
  total_words :: nat
  unique_words :: nat
  words_min_freq :: nat
  coverage_top_1000 :: rat

definition analyze_vocabulary ::
  "library \<Rightarrow> string list \<Rightarrow> int \<Rightarrow> error + (freq_row list \<times> vocab_stats)" where
  "analyze_vocabulary lib texts min_freq =
     (let texts' = map (preprocess_text lib) texts
      in case fit_vocabulary lib (sklearn_english lib) None 1 texts' of
           Inl e \<Rightarrow> Inl e
         | Inr (_, words) \<Rightarrow>
             (let word_freq = Counter words;
                  total = length words;
                  unique = length word_freq;
                  rows = map (\<lambda>(w, f). (w, f, rat_of_nat f / rat_of_nat total * 100)) word_freq;
                  sorted_rows = sort_values_desc lib (\<lambda>(w, f, p). rat_of_nat f) rows;
                  cum = cumsum (map (\<lambda>(w, f, p). p) sorted_rows);
                  freq_df = map (\<lambda>((w, f, p), c).
                              \<lparr>word = w, frequency = f, percentage = p,
                               cumulative_percentage = c\<rparr>) (zip sorted_rows cum);
                  stats = \<lparr>total_words = total,
                           unique_words = unique,
                           words_min_freq =
                             length (filter (\<lambda>(w, f). min_freq \<le> int f) word_freq),
                           coverage_top_1000 =
                             (if 1000 \<le> length freq_df
                              then rat_of_nat (sum_list (map frequency (take 1000 freq_df)))
                                     / rat_of_nat total * 100
                              else 100)\<rparr>
              in Inr (freq_df, stats)))"

subsection \<open>generate\_tfidf\_matrix\<close>

definition generate_tfidf_matrix ::
  "library \<Rightarrow> string list \<Rightarrow> int \<Rightarrow> int \<Rightarrow> error + (matrix \<times> string list)" where
  "generate_tfidf_matrix lib texts max_terms min_doc_freq =
     (case fit_vocabulary lib (nltk_english lib) (Some max_terms) min_doc_freq texts of
        Inl e \<Rightarrow> Inl e
      | Inr (X, feature_names) \<Rightarrow> Inr (tfidf_weights lib X, feature_names))"

text \<open>
  The number of documents of the corpus in which a term occurs, counted on the documents
  themselves: a term occurs in a document when it is one of the document's tokens.
\<close>

definition occurs_in_documents :: "library \<Rightarrow> string \<Rightarrow> string list \<Rightarrow> nat" where
  "occurs_in_documents lib t texts = length (filter (\<lambda>d. t \<in> set (tokenize lib d)) texts)"

subsection \<open>get\_top\_terms\<close>

text \<open>
  A DataFrame is its index and its named columns; a Series and a dict are sequences of
  (label, value) pairs, a dict in insertion order. Any other argument, a plain list of
  tuples for one, is neither.
\<close>

record dataframe =
  df_index :: "string list"
  df_columns :: "(string \<times> rat list) list"

datatype tfidf_results =
    DataFrame dataframe
  | Series "(string \<times> rat) list"
  | Dict "(string \<times> rat) list"
  | ListOfTuples "(string \<times> rat) list"
  | NoneValue

text \<open>\<^verbatim>\<open>head(n)\<close> is \<^verbatim>\<open>iloc[:n]\<close>.\<close>

fun get_top_terms :: "library \<Rightarrow> tfidf_results \<Rightarrow> int \<Rightarrow> error + string list" where
  "get_top_terms lib (DataFrame df) n_terms =
     (case map_of (df_columns df) ''score'' of
        None \<Rightarrow> Inl (KeyError ''score'')
      | Some scores \<Rightarrow>
          Inr (map fst
                 (py_slice_to (sort_values_desc lib snd (zip (df_index df) scores)) n_terms)))"
| "get_top_terms lib (Series s) n_terms =
     Inr (map fst (py_slice_to (sort_values_desc lib snd s) n_terms))"
| "get_top_terms lib (Dict d) n_terms =
     Inr (map fst (py_slice_to (sort_values_desc lib snd d) n_terms))"
| "get_top_terms lib _ n_terms =
     Inl (ValueError ''tfidf_results must be DataFrame, Series or dict'')"


fun is_DataFrame :: "tfidf_results \<Rightarrow> bool" where
  "is_DataFrame (DataFrame _) = True"
| "is_DataFrame _ = False"

fun is_Series_or_dict :: "tfidf_results \<Rightarrow> bool" where
  "is_Series_or_dict (Series _) = True"
| "is_Series_or_dict (Dict _) = True"
| "is_Series_or_dict _ = False"

subsection \<open>plot\_word\_similarities\_mds\<close>

text \<open>
  The inner loop \<^verbatim>\<open>for j in range(i + 1, len(top_terms))\<close>: a line is drawn when
  \<^verbatim>\<open>similarities[i, j] > similarity_threshold\<close>. Reading the similarity matrix or the
  coordinates past the end raises IndexError.
\<close>

fun edges_from :: "matrix \<Rightarrow> coords \<Rightarrow> rat \<Rightarrow> nat \<Rightarrow> nat list \<Rightarrow> error + (nat \<times> nat) list" where
  "edges_from similarities cs thr i [] = Inr []"
| "edges_from similarities cs thr i (j # js) =
     (if i < length similarities \<and> j < length (similarities ! i)
      then (if thr < similarities ! i ! j
            then (if i < length cs \<and> j < length cs
                  then (case edges_from similarities cs thr i js of
                          Inl e \<Rightarrow> Inl e
                        | Inr es \<Rightarrow> Inr ((i, j) # es))
                  else Inl IndexError)
            else edges_from similarities cs thr i js)
      else Inl IndexError)"

text \<open>The outer loop \<^verbatim>\<open>for i in range(len(top_terms))\<close>.\<close>

fun edges_loop :: "matrix \<Rightarrow> coords \<Rightarrow> rat \<Rightarrow> nat \<Rightarrow> nat list \<Rightarrow> error + (nat \<times> nat) list" where
  "edges_loop similarities cs thr n [] = Inr []"
| "edges_loop similarities cs thr n (i # is) =
     (case edges_from similarities cs thr i [i + 1..<n] of
        Inl e \<Rightarrow> Inl e
      | Inr es \<Rightarrow>
          (case edges_loop similarities cs thr n is of
             Inl e \<Rightarrow> Inl e
           | Inr es' \<Rightarrow> Inr (es @ es')))"

record word_mds_plot =
  wm_top_terms :: "string list"
  wm_similarities :: matrix
  wm_coords :: coords
  wm_edges :: "(nat \<times> nat) list"

text \<open>
  \<^verbatim>\<open>similarity_threshold\<close> has the default 0.3: \<open>None\<close> stands for a call that leaves the
  argument out.
\<close>

definition threshold_of :: "rat option \<Rightarrow> rat" where
  "threshold_of similarity_threshold =
     (case similarity_threshold of None \<Rightarrow> 3 / 10 | Some t \<Rightarrow> t)"

definition plot_word_similarities_mds ::
  "library \<Rightarrow> matrix \<Rightarrow> string list \<Rightarrow> int \<Rightarrow> rat option \<Rightarrow> error + word_mds_plot" where
  "plot_word_similarities_mds lib tfidf_matrix feature_names n_terms similarity_threshold =
     (let mean_tfidf = mean_axis0 tfidf_matrix;
          top_indices = top_indices_of lib mean_tfidf n_terms
      in case index_all (transpose_matrix tfidf_matrix) top_indices of
           Inl e \<Rightarrow> Inl e
         | Inr term_vectors \<Rightarrow>
        (case index_all feature_names top_indices of
           Inl e \<Rightarrow> Inl e
         | Inr top_terms \<Rightarrow>
        (case cosine_similarity lib term_vectors of
           Inl e \<Rightarrow> Inl e
         | Inr similarities \<Rightarrow>
        (case fit_transform lib (MDS 2 ''precomputed'' 42)
                (map (map (\<lambda>x. 1 - x)) similarities) of
           Inl e \<Rightarrow> Inl e
         | Inr cs \<Rightarrow>
        (if length cs < length top_terms then Inl IndexError
         else
           (case edges_loop similarities cs (threshold_of similarity_threshold)
                   (length top_terms) [0..<length top_terms] of
              Inl e \<Rightarrow> Inl e
            | Inr es \<Rightarrow>
                Inr \<lparr>wm_top_terms = top_terms, wm_similarities = similarities,
                     wm_coords = cs, wm_edges = es\<rparr>))))))"

subsection \<open>plot\_word\_similarities\_tsne\<close>

text \<open>
  \<^verbatim>\<open>TSNE(n_components=2, perplexity=min(30, len(feature_names) / 4), random_state=42)\<close>;
  the function's own \<^verbatim>\<open>perplexity\<close> argument is not used.
\<close>

definition word_tsne_estimator :: "string list \<Rightarrow> estimator" where
  "word_tsne_estimator feature_names =
     TSNE 2 (min 30 (of_nat (length feature_names) / 4)) 42"

record word_tsne_plot =
  wt_coords :: coords
  wt_top_indices :: "nat list"
  wt_top_terms :: "string list"

definition plot_word_similarities_tsne ::
  "library \<Rightarrow> matrix \<Rightarrow> string list \<Rightarrow> int \<Rightarrow> error + word_tsne_plot" where
  "plot_word_similarities_tsne lib tfidf_matrix feature_names n_highlight =
     (let term_vectors = transpose_matrix tfidf_matrix;
          mean_tfidf = mean_axis0 tfidf_matrix;
          top_indices = top_indices_of lib mean_tfidf n_highlight
      in case index_all feature_names top_indices of
           Inl e \<Rightarrow> Inl e
         | Inr top_terms \<Rightarrow>
             (case fit_transform lib (word_tsne_estimator feature_names) term_vectors of
                Inl e \<Rightarrow> Inl e
              | Inr cs \<Rightarrow>
                  (case index_all cs top_indices of
                     Inl e \<Rightarrow> Inl e
                   | Inr _ \<Rightarrow>
                       Inr \<lparr>wt_coords = cs, wt_top_indices = top_indices,
                            wt_top_terms = top_terms\<rparr>)))"

subsection \<open>plot\_similarities\<close>

datatype top_terms_arg = TopNone | TopInt int | TopOther "string list"

datatype colour = Black | Set1 nat

text \<open>
  \<^verbatim>\<open>TSNE(n_components=2, perplexity=min(30, len(labels) - 1), random_state=42)\<close>.
\<close>

definition tsne_estimator :: "string list \<Rightarrow> estimator" where
  "tsne_estimator labels = TSNE 2 (of_int (min 30 (int (length labels) - 1))) 42"

text \<open>
  The reduction step: t-SNE on the matrix, or MDS on one minus the cosine similarity;
  any other method name raises ValueError (its message is written without the quotes
  around the two names).
\<close>

definition reduce_coords :: "library \<Rightarrow> matrix \<Rightarrow> string list \<Rightarrow> string \<Rightarrow> error + coords" where
  "reduce_coords lib matrix labels method =
     (if method = ''tsne'' then fit_transform lib (tsne_estimator labels) matrix
      else if method = ''mds'' then
        (case cosine_similarity lib matrix of
           Inl e \<Rightarrow> Inl e
         | Inr s \<Rightarrow> fit_transform lib (MDS 2 ''precomputed'' 42) (map (map (\<lambda>x. 1 - x)) s))
      else Inl (ValueError ''Method must be tsne or mds''))"

text \<open>
  The emphasis step. \<^verbatim>\<open>top_terms and isinstance(top_terms, int)\<close> holds for a non-zero
  integer only. The mean is taken over \<^verbatim>\<open>axis=0\<close> when \<^verbatim>\<open>is_documents\<close> is set and
  over \<^verbatim>\<open>axis=1\<close> otherwise, always on the matrix as it was passed in.
\<close>

definition select_annotated ::
  "library \<Rightarrow> matrix \<Rightarrow> string list \<Rightarrow> coords \<Rightarrow> bool \<Rightarrow> top_terms_arg \<Rightarrow>
     error + (string list \<times> coords)" where
  "select_annotated lib tfidf_matrix labels cs is_documents top_terms =
     (case top_terms of
        TopInt n \<Rightarrow>
          (if n \<noteq> 0 then
             (let mean_tfidf = (if is_documents then mean_axis0 tfidf_matrix
                                else mean_axis1 tfidf_matrix);
                  top_indices = top_indices_of lib mean_tfidf n
              in case index_all labels top_indices of
                   Inl e \<Rightarrow> Inl e
                 | Inr ls \<Rightarrow>
                     (case index_all cs top_indices of
                        Inl e \<Rightarrow> Inl e
                      | Inr cs' \<Rightarrow> Inr (ls, cs')))
           else Inr (labels, cs))
      | _ \<Rightarrow> Inr (labels, cs))"

text \<open>
  The colour map pairs the distinct labels with the first colours of the nine-colour
  palette Set1; \<^verbatim>\<open>list(set(...))\<close> has no fixed order, the order of first occurrence stands
  for it. A label without a colour raises KeyError.
\<close>

definition make_color_map :: "string list \<Rightarrow> (string \<times> colour) list" where
  "make_color_map labels_to_annotate =
     (let unique_labels = remdups labels_to_annotate
      in zip unique_labels (map Set1 [0..<min 9 (length unique_labels)]))"

fun lookup_colors :: "(string \<times> colour) list \<Rightarrow> string list \<Rightarrow> error + colour list" where
  "lookup_colors color_map [] = Inr []"
| "lookup_colors color_map (l # ls) =
     (case map_of color_map l of
        None \<Rightarrow> Inl (KeyError l)
      | Some c \<Rightarrow>
          (case lookup_colors color_map ls of Inl e \<Rightarrow> Inl e | Inr cs \<Rightarrow> Inr (c # cs)))"

text \<open>
  The annotation loop over \<^verbatim>\<open>zip(labels_to_annotate, colors)\<close>: a document label is wrapped
  at 20 characters, and reading \<^verbatim>\<open>coords_to_annotate[i]\<close> past the end raises IndexError.
\<close>

fun annotate :: "library \<Rightarrow> bool \<Rightarrow> (string \<times> colour) list \<Rightarrow> coords \<Rightarrow>
    error + (string \<times> (rat \<times> rat) \<times> colour) list" where
  "annotate lib is_documents [] cs = Inr []"
| "annotate lib is_documents ((l, c) # rest) cs =
     (case cs of
        [] \<Rightarrow> Inl IndexError
      | p # ps \<Rightarrow>
          (case annotate lib is_documents rest ps of
             Inl e \<Rightarrow> Inl e
           | Inr as \<Rightarrow>
               Inr (((if is_documents then split_label lib l 20 else l), p, c) # as)))"

record projection =
  proj_coords :: coords
  labels_to_annotate :: "string list"
  coords_to_annotate :: coords
  colors :: "colour list"
  scatter_colors :: "colour list option"
  annotations :: "(string \<times> (rat \<times> rat) \<times> colour) list"

text \<open>
  The whole function up to the drawing calls. When \<^verbatim>\<open>use_text_annotations\<close> is off and
  \<^verbatim>\<open>label_color\<close> is off too, \<^verbatim>\<open>color_map\<close> was never assigned and reading it raises
  UnboundLocalError.
\<close>

definition plot_similarities ::
  "library \<Rightarrow> matrix \<Rightarrow> string list \<Rightarrow> string \<Rightarrow> bool \<Rightarrow> bool \<Rightarrow> bool \<Rightarrow> top_terms_arg \<Rightarrow>
    error + projection" where
  "plot_similarities lib tfidf_matrix labels method is_documents label_color
      use_text_annotations top_terms =
     (let matrix = (if \<not> is_documents then transpose_matrix tfidf_matrix else tfidf_matrix)
      in case reduce_coords lib matrix labels method of
           Inl e \<Rightarrow> Inl e
         | Inr cs \<Rightarrow>
        (case select_annotated lib tfidf_matrix labels cs is_documents top_terms of
           Inl e \<Rightarrow> Inl e
         | Inr (ls, cs') \<Rightarrow>
        (case (if label_color then lookup_colors (make_color_map ls) ls
               else Inr (replicate (length ls) Black)) of
           Inl e \<Rightarrow> Inl e
         | Inr cols \<Rightarrow>
        (case (if \<not> use_text_annotations then
                 (if label_color
                  then (case lookup_colors (make_color_map ls) ls of
                          Inl e \<Rightarrow> Inl e | Inr sc \<Rightarrow> Inr (Some sc))
                  else Inl (UnboundLocalError ''color_map''))
               else Inr None) of
           Inl e \<Rightarrow> Inl e
         | Inr sc \<Rightarrow>
        (case (if use_text_annotations then annotate lib is_documents (zip ls cols) cs'
               else Inr []) of
           Inl e \<Rightarrow> Inl e
         | Inr as \<Rightarrow>
             Inr \<lparr>proj_coords = cs, labels_to_annotate = ls, coords_to_annotate = cs',
                  colors = cols, scatter_colors = sc, annotations = as\<rparr>)))))"

subsection \<open>A stand-in for the library\<close>

text \<open>
  To run the functions on concrete inputs the library parameters are instantiated with
  simple stand-ins: the tokenizer splits at spaces, the only stop word is \<open>the\<close>, an
  embedding puts every item at the origin, the similarity of two rows is their dot product
  (their cosine similarity when the rows have unit length), a label is cut at the width,
  the weights are the counts, and the sort is stable.
\<close>

fun split_words :: "string \<Rightarrow> string \<Rightarrow> string list" where
  "split_words w [] = (if w = [] then [] else [rev w])"
| "split_words w (c # cs) =
     (if c = CHR '' '' then (if w = [] then split_words [] cs else rev w # split_words [] cs)
      else split_words (c # w) cs)"

definition dot :: "rat list \<Rightarrow> rat list \<Rightarrow> rat" where
  "dot xs ys = sum_list (map (\<lambda>(x, y). x * y) (zip xs ys))"

definition sample_library :: library where
  "sample_library =
     \<lparr>fit_transform = (\<lambda>est m. Inr (map (\<lambda>r. (0, 0)) m)),
      cosine_similarity = (\<lambda>m. Inr (map (\<lambda>r. map (\<lambda>r'. dot r r') m) m)),
      split_label = (\<lambda>s w. take w s),
      preprocess_text = (\<lambda>s. s),
      tokenize = split_words [],
      sklearn_english = [''the''],
      nltk_english = [''the''],
      tfidf_weights = map (map rat_of_nat),
      sort_ties = (\<lambda>keys i. 0)\<rparr>"


text \<open>
  The same library with a t-SNE that accepts a perplexity of at most the number of rows
  minus one, and rejects a larger one.
\<close>

definition bounded_library :: library where
  "bounded_library =
     sample_library\<lparr>fit_transform :=
       (\<lambda>est m. case est of
           TSNE k p seed \<Rightarrow>
             (if p \<le> of_int (int (length m) - 1) then Inr (map (\<lambda>r. (0, 0)) m)
              else Inl (ValueError ''perplexity above n_samples - 1''))
         | MDS k d seed \<Rightarrow> Inr (map (\<lambda>r. (0, 0)) m))\<rparr>"


section \<open>Properties\<close>

subsection \<open>The sort\<close>

lemma quicksort_rows_mset: "mset (quicksort_rows lib k xs) = mset xs"
proof -
  define f where "f = (\<lambda>(i :: nat, r :: 'a). sort_ties lib (map k xs) i)"
  have "mset (map snd (sort_key f (enumerate 0 xs)))
      = image_mset snd (mset (sort_key f (enumerate 0 xs)))"
    by (simp only: mset_map)
  also have "\<dots> = image_mset snd (mset (enumerate 0 xs))"
    by (simp only: mset_sort)
  also have "\<dots> = mset (map snd (enumerate 0 xs))"
    by (simp only: mset_map)
  also have "\<dots> = mset xs"
    by (simp only: map_snd_enumerate)
  finally have "mset (map snd (sort_key f (enumerate 0 xs))) = mset xs" .
  then show ?thesis
    by (simp only: quicksort_rows_def f_def [symmetric] mset_sort)
qed

lemma quicksort_rows_sorted: "sorted (map k (quicksort_rows lib k xs))"
  by (simp only: quicksort_rows_def sorted_sort_key)


lemma quicksort_rows_set: "set (quicksort_rows lib k xs) = set xs"
  using quicksort_rows_mset [of lib k xs] by (rule mset_eq_setD)

subsection \<open>The fitted vocabulary\<close>

lemma length_filter_imp:
  "(\<And>x. x \<in> set xs \<Longrightarrow> P x \<Longrightarrow> Q x) \<Longrightarrow> length (filter P xs) \<le> length (filter Q xs)"
  by (induction xs) auto

lemma length_filter_mem_upt: "length (filter (\<lambda>j. j \<in> set S) [0..<n]) \<le> length S"
proof -
  have d: "distinct (filter (\<lambda>j. j \<in> set S) [0..<n])" by simp
  have "length (filter (\<lambda>j. j \<in> set S) [0..<n]) = card (set (filter (\<lambda>j. j \<in> set S) [0..<n]))"
    using distinct_card [OF d] by simp
  also have "\<dots> \<le> card (set S)"
    by (rule card_mono) auto
  also have "\<dots> \<le> length S"
    by (rule card_length)
  finally show ?thesis .
qed

lemma document_frequency_count_matrix:
  assumes "j < length vocabulary"
  shows "document_frequency (count_matrix docs vocabulary) j
       = length (filter (\<lambda>d. vocabulary ! j \<in> set d) docs)"
proof -
  have "filter (\<lambda>r. r ! j \<noteq> 0) (map (\<lambda>d. map (\<lambda>t. count_list d t) vocabulary) docs)
      = map (\<lambda>d. map (\<lambda>t. count_list d t) vocabulary) (filter (\<lambda>d. vocabulary ! j \<in> set d) docs)"
    using assms by (induction docs) (simp_all add: count_list_0_iff)
  then show ?thesis
    by (simp add: document_frequency_def count_matrix_def)
qed

text \<open>What limit_features keeps.\<close>

lemma kept_indices_None: "kept_indices lib X n high low None = df_mask X n high low"
  by (simp add: kept_indices_def)

lemma kept_indices_Some:
  "kept_indices lib X n high low (Some k) =
     (if k < int (length (df_mask X n high low))
      then filter (\<lambda>j. j \<in> set (py_slice_to
              (quicksort_rows lib (\<lambda>j. - rat_of_nat (term_total X j)) (df_mask X n high low)) k)) [0..<n]
      else df_mask X n high low)"
  by (simp add: kept_indices_def Let_def)

lemma df_mask_mem: "j \<in> set (df_mask X n high low) \<Longrightarrow> j < n \<and> low \<le> int (document_frequency X j)"
  by (simp add: df_mask_def)

lemma df_mask_distinct: "distinct (df_mask X n high low)"
  by (simp add: df_mask_def)

lemma kept_indices_distinct: "distinct (kept_indices lib X n high low limit)"
proof (cases limit)
  case None
  then show ?thesis by (simp add: kept_indices_None df_mask_distinct)
next
  case (Some k)
  then show ?thesis by (simp add: kept_indices_Some df_mask_distinct)
qed

lemma set_py_slice_to: "set (py_slice_to xs k) \<subseteq> set xs"
  by (simp add: py_slice_to_def Let_def set_take_subset)

lemma length_py_slice_to: "0 \<le> k \<Longrightarrow> length (py_slice_to xs k) \<le> nat k"
  by (simp add: py_slice_to_def Let_def)

lemma kept_indices_subset: "set (kept_indices lib X n high low limit) \<subseteq> set (df_mask X n high low)"
proof (cases limit)
  case None
  then show ?thesis by (simp add: kept_indices_None)
next
  case (Some k)
  define M where "M = df_mask X n high low"
  define S where "S = py_slice_to (quicksort_rows lib (\<lambda>j. - rat_of_nat (term_total X j)) M) k"
  have "set S \<subseteq> set (quicksort_rows lib (\<lambda>j. - rat_of_nat (term_total X j)) M)"
    unfolding S_def by (rule set_py_slice_to)
  then have SM: "set S \<subseteq> set M" by (simp only: quicksort_rows_set)
  have eq: "kept_indices lib X n high low (Some k) =
     (if k < int (length M) then filter (\<lambda>j. j \<in> set S) [0..<n] else M)"
    unfolding M_def S_def by (rule kept_indices_Some)
  show ?thesis
  proof (cases "k < int (length M)")
    case True
    with eq have "kept_indices lib X n high low (Some k) = filter (\<lambda>j. j \<in> set S) [0..<n]"
      by simp
    then have "set (kept_indices lib X n high low (Some k)) \<subseteq> set S" by auto
    with SM Some show ?thesis unfolding M_def by blast
  next
    case False
    with eq have "kept_indices lib X n high low (Some k) = M" by simp
    with Some show ?thesis unfolding M_def by simp
  qed
qed

lemma kept_indices_mem:
  assumes "j \<in> set (kept_indices lib X n high low limit)"
  shows "j < n \<and> low \<le> int (document_frequency X j)"
  using assms kept_indices_subset df_mask_mem by blast

lemma kept_indices_length:
  assumes "0 \<le> k"
  shows "int (length (kept_indices lib X n high low (Some k))) \<le> k"
proof -
  define M where "M = df_mask X n high low"
  define S where "S = py_slice_to (quicksort_rows lib (\<lambda>j. - rat_of_nat (term_total X j)) M) k"
  have eq: "kept_indices lib X n high low (Some k) =
     (if k < int (length M) then filter (\<lambda>j. j \<in> set S) [0..<n] else M)"
    unfolding M_def S_def by (rule kept_indices_Some)
  show ?thesis
  proof (cases "k < int (length M)")
    case True
    with eq have "length (kept_indices lib X n high low (Some k))
        = length (filter (\<lambda>j. j \<in> set S) [0..<n])"
      by simp
    also have "\<dots> \<le> length S" by (rule length_filter_mem_upt)
    also have "\<dots> \<le> nat k" unfolding S_def using assms by (rule length_py_slice_to)
    finally show ?thesis using assms by linarith
  next
    case False
    with eq show ?thesis by simp
  qed
qed

lemma limit_features_kept:
  assumes "limit_features lib X vocabulary high low limit = Inr (X', names)"
  shows "\<exists>idx. names = map (\<lambda>j. vocabulary ! j) idx \<and> idx \<noteq> [] \<and> distinct idx \<and>
           (\<forall>j. j \<in> set idx \<longrightarrow> j < length vocabulary \<and> low \<le> int (document_frequency X j)) \<and>
           (\<forall>k. limit = Some k \<longrightarrow> 0 \<le> k \<longrightarrow> int (length idx) \<le> k)"
proof -
  let ?kept = "kept_indices lib X (length vocabulary) high low limit"
  have ne: "?kept \<noteq> []"
  proof
    assume "?kept = []"
    with assms show False by (simp add: limit_features_def Let_def)
  qed
  with assms have names: "names = map (\<lambda>j. vocabulary ! j) ?kept"
    by (simp add: limit_features_def Let_def)
  have props: "\<forall>j. j \<in> set ?kept \<longrightarrow>
      j < length vocabulary \<and> low \<le> int (document_frequency X j)"
    using kept_indices_mem by blast
  have len: "\<forall>k. limit = Some k \<longrightarrow> 0 \<le> k \<longrightarrow> int (length ?kept) \<le> k"
    using kept_indices_length by blast
  from names ne kept_indices_distinct props len show ?thesis by blast
qed

lemma fit_vocabulary_kept:
  assumes "fit_vocabulary lib stop max_features min_df raw_documents = Inr (X', names)"
  shows "\<exists>idx vocabulary. names = map (\<lambda>j. vocabulary ! j) idx \<and> idx \<noteq> [] \<and> distinct idx \<and>
           distinct vocabulary \<and>
           (\<forall>j. j \<in> set idx \<longrightarrow> j < length vocabulary \<and>
              min_df \<le> int (length (filter (\<lambda>d. vocabulary ! j \<in> set (analyze lib stop d))
                                     raw_documents))) \<and>
           (\<forall>k. max_features = Some k \<longrightarrow> int (length idx) \<le> k)"
proof -
  define docs where "docs = map (analyze lib stop) raw_documents"
  define vocabulary where "vocabulary = sort (remdups (concat docs))"
  from assms have pos: "\<And>k. max_features = Some k \<Longrightarrow> 0 < k"
    by (auto simp: fit_vocabulary_def split: if_splits option.splits)
  from assms have lf: "limit_features lib (count_matrix docs vocabulary) vocabulary
       (int (length raw_documents)) min_df max_features = Inr (X', names)"
    by (auto simp: fit_vocabulary_def Let_def docs_def vocabulary_def split: if_splits option.splits)
  from limit_features_kept [OF lf] obtain idx where
    idx: "names = map (\<lambda>j. vocabulary ! j) idx" "idx \<noteq> []" "distinct idx"
      "\<forall>j. j \<in> set idx \<longrightarrow> j < length vocabulary \<and>
           min_df \<le> int (document_frequency (count_matrix docs vocabulary) j)"
      "\<forall>k. max_features = Some k \<longrightarrow> 0 \<le> k \<longrightarrow> int (length idx) \<le> k"
    by blast
  have df: "\<And>j. j < length vocabulary \<Longrightarrow>
      document_frequency (count_matrix docs vocabulary) j
        = length (filter (\<lambda>d. vocabulary ! j \<in> set (analyze lib stop d)) raw_documents)"
    by (simp add: document_frequency_count_matrix docs_def filter_map comp_def)
  have dv: "distinct vocabulary" by (simp add: vocabulary_def)
  from idx df dv pos show ?thesis
    by (intro exI [of _ idx] exI [of _ vocabulary]) (auto simp: less_imp_le)
qed

lemma fit_vocabulary_distinct:
  assumes "fit_vocabulary lib stop max_features min_df raw_documents = Inr (X', names)"
  shows "distinct names \<and> names \<noteq> []"
proof -
  from fit_vocabulary_kept [OF assms] obtain idx vocabulary where
    k: "names = map (\<lambda>j. vocabulary ! j) idx" "idx \<noteq> []" "distinct idx" "distinct vocabulary"
       "\<forall>j. j \<in> set idx \<longrightarrow> j < length vocabulary"
    by blast
  have "inj_on (\<lambda>j. vocabulary ! j) (set idx)"
    using k(4,5) by (auto simp: inj_on_def nth_eq_iff_index_eq)
  with k show ?thesis by (simp add: distinct_map)
qed

text \<open>
  C2. When \<^verbatim>\<open>generate_tfidf_matrix\<close> returns for \<open>max_terms = K\<close> and
  \<open>min_doc_freq = M\<close>, the feature names are at most \<open>K\<close> and every one of them occurs in
  at least \<open>M\<close> documents of the corpus.
\<close>

theorem vocabulary_pruned:
  assumes "generate_tfidf_matrix lib texts max_terms min_doc_freq = Inr (tfidf_matrix, feature_names)"
  shows "int (length feature_names) \<le> max_terms \<and>
         (\<forall>t \<in> set feature_names. min_doc_freq \<le> int (occurs_in_documents lib t texts))"
proof -
  from assms obtain X where
    fit: "fit_vocabulary lib (nltk_english lib) (Some max_terms) min_doc_freq texts
            = Inr (X, feature_names)"
    by (auto simp: generate_tfidf_matrix_def split: sum.splits)
  from fit_vocabulary_kept [OF fit] obtain idx vocabulary where
    names: "feature_names = map (\<lambda>j. vocabulary ! j) idx" and
    df: "\<forall>j. j \<in> set idx \<longrightarrow> j < length vocabulary \<and>
              min_doc_freq \<le> int (length (filter
                 (\<lambda>d. vocabulary ! j \<in> set (analyze lib (nltk_english lib) d)) texts))" and
    len: "int (length idx) \<le> max_terms"
    by blast
  have le: "\<And>t. length (filter (\<lambda>d. t \<in> set (analyze lib (nltk_english lib) d)) texts)
              \<le> occurs_in_documents lib t texts"
    unfolding occurs_in_documents_def
    by (rule length_filter_imp) (simp add: analyze_def)
  show ?thesis
  proof
    show "int (length feature_names) \<le> max_terms"
      using len by (simp add: names)
    show "\<forall>t \<in> set feature_names. min_doc_freq \<le> int (occurs_in_documents lib t texts)"
    proof
      fix t assume "t \<in> set feature_names"
      then obtain j where j: "j \<in> set idx" and t: "t = vocabulary ! j"
        by (auto simp: names)
      from df j t have "min_doc_freq \<le> int (length (filter
                 (\<lambda>d. t \<in> set (analyze lib (nltk_english lib) d)) texts))"
        by simp
      also have "\<dots> \<le> int (occurs_in_documents lib t texts)"
        using le [of t] by simp
      finally show "min_doc_freq \<le> int (occurs_in_documents lib t texts)" .
    qed
  qed
qed

theorem vocabulary_pruned_witness:
  "generate_tfidf_matrix sample_library [''b a the'', ''a c'', ''c a''] 1 2
     = Inr ([[1], [1], [1]], [''a'']) \<and>
   int (length [''a'']) \<le> 1 \<and>
   2 \<le> int (occurs_in_documents sample_library ''a'' [''b a the'', ''a c'', ''c a''])"
proof -
  have h: "generate_tfidf_matrix sample_library [''b a the'', ''a c'', ''c a''] 1 2
     = Inr ([[1], [1], [1]], [''a''])"
    by code_simp
  from vocabulary_pruned [OF h] h show ?thesis by simp
qed


subsection \<open>Top terms\<close>


lemma sort_values_desc_mset: "mset (sort_values_desc lib k xs) = mset xs"
  by (simp add: sort_values_desc_def quicksort_rows_mset)


lemma set_sort_values_desc: "set (sort_values_desc lib k rows) = set rows"
  using sort_values_desc_mset [of lib k rows] by (rule mset_eq_setD)

lemma sort_values_desc_sorted: "sorted (rev (map k (sort_values_desc lib k xs)))"
  by (simp add: sort_values_desc_def rev_map quicksort_rows_sorted)

lemma sorted_rev_map_iff:
  "sorted (rev (map k xs)) = sorted_wrt (\<lambda>a b. k b \<le> k a) xs"
  by (induction xs) (auto simp: sorted_append)




text \<open>A table without a score column is no scored collection: the sort raises KeyError.\<close>

lemma get_top_terms_no_score_column:
  "map_of (df_columns df) ''score'' = None \<Longrightarrow>
   get_top_terms lib (DataFrame df) n_terms = Inl (KeyError ''score'')"
  by simp




text \<open>
  C6. An argument that is neither a DataFrame nor a Series nor a dict, a plain list of
  tuples for one, makes \<^verbatim>\<open>get_top_terms\<close> raise ValueError with the message
  \<^verbatim>\<open>tfidf_results must be DataFrame, Series or dict\<close>.
\<close>

theorem unsupported_input_rejected:
  "\<not> is_DataFrame r \<Longrightarrow> \<not> is_Series_or_dict r \<Longrightarrow>
   get_top_terms lib r n_terms = Inl (ValueError ''tfidf_results must be DataFrame, Series or dict'')"
  by (cases r) simp_all

theorem unsupported_input_rejected_witness:
  "\<not> is_DataFrame (ListOfTuples [(''climate'', 1)]) \<and>
   \<not> is_Series_or_dict (ListOfTuples [(''climate'', 1)]) \<and>
   get_top_terms sample_library (ListOfTuples [(''climate'', 1)]) 5
     = Inl (ValueError ''tfidf_results must be DataFrame, Series or dict'')"
  using unsupported_input_rejected [of "ListOfTuples [(''climate'', 1)]" sample_library 5]
  by simp

subsection \<open>Similarity edges\<close>

lemma edges_from_mem:
  "edges_from sims cs thr i js = Inr es \<Longrightarrow>
   (a, b) \<in> set es \<longleftrightarrow> a = i \<and> b \<in> set js \<and> thr < sims ! i ! b"
proof (induction js arbitrary: es)
  case Nil
  then show ?case by simp
next
  case (Cons j js)
  from Cons.prems have ok: "i < length sims \<and> j < length (sims ! i)"
    by (simp split: if_splits)
  show ?case
  proof (cases "thr < sims ! i ! j")
    case True
    with Cons.prems ok obtain es' where
      rest: "edges_from sims cs thr i js = Inr es'" and es: "es = (i, j) # es'"
      by (auto split: if_splits sum.splits)
    from Cons.IH [OF rest] True show ?thesis
      by (auto simp: es)
  next
    case False
    with Cons.prems ok have rest: "edges_from sims cs thr i js = Inr es"
      by simp
    from Cons.IH [OF rest] False show ?thesis
      by auto
  qed
qed

lemma edges_loop_mem:
  "edges_loop sims cs thr n is = Inr es \<Longrightarrow>
   (a, b) \<in> set es \<longleftrightarrow> a \<in> set is \<and> a < b \<and> b < n \<and> thr < sims ! a ! b"
proof (induction "is" arbitrary: es)
  case Nil
  then show ?case by simp
next
  case (Cons i "is")
  from Cons.prems obtain e1 e2 where
    e1: "edges_from sims cs thr i [i + 1..<n] = Inr e1" and
    e2: "edges_loop sims cs thr n is = Inr e2" and
    es: "es = e1 @ e2"
    by (auto split: sum.splits)
  have m1: "(a, b) \<in> set e1 \<longleftrightarrow> a = i \<and> i < b \<and> b < n \<and> thr < sims ! i ! b"
    using edges_from_mem [OF e1, of a b] by auto
  have m2: "(a, b) \<in> set e2 \<longleftrightarrow> a \<in> set is \<and> a < b \<and> b < n \<and> thr < sims ! a ! b"
    using Cons.IH [OF e2] .
  show ?case unfolding es set_append Un_iff m1 m2 by auto
qed

lemma plot_word_similarities_mds_result:
  assumes "plot_word_similarities_mds lib tfidf_matrix feature_names n_terms thr = Inr r"
  shows "edges_loop (wm_similarities r) (wm_coords r) (threshold_of thr)
           (length (wm_top_terms r)) [0..<length (wm_top_terms r)] = Inr (wm_edges r) \<and>
         (\<exists>tv. index_all (transpose_matrix tfidf_matrix)
                  (top_indices_of lib (mean_axis0 tfidf_matrix) n_terms) = Inr tv \<and>
               cosine_similarity lib tv = Inr (wm_similarities r)) \<and>
         index_all feature_names (top_indices_of lib (mean_axis0 tfidf_matrix) n_terms)
           = Inr (wm_top_terms r)"
proof -
  let ?ti = "top_indices_of lib (mean_axis0 tfidf_matrix) n_terms"
  from assms obtain tv where tv: "index_all (transpose_matrix tfidf_matrix) ?ti = Inr tv"
    by (cases "index_all (transpose_matrix tfidf_matrix) ?ti")
       (simp_all add: plot_word_similarities_mds_def Let_def)
  from assms tv obtain tt where tt: "index_all feature_names ?ti = Inr tt"
    by (cases "index_all feature_names ?ti")
       (simp_all add: plot_word_similarities_mds_def Let_def)
  from assms tv tt obtain sims where sims: "cosine_similarity lib tv = Inr sims"
    by (cases "cosine_similarity lib tv")
       (simp_all add: plot_word_similarities_mds_def Let_def)
  let ?d = "map (map (\<lambda>x. 1 - x)) sims"
  from assms tv tt sims obtain cs where
    cs: "fit_transform lib (MDS 2 ''precomputed'' 42) ?d = Inr cs"
    by (cases "fit_transform lib (MDS 2 ''precomputed'' 42) ?d")
       (simp_all add: plot_word_similarities_mds_def Let_def)
  from assms tv tt sims cs have len: "\<not> length cs < length tt"
    by (simp add: plot_word_similarities_mds_def Let_def split: if_splits)
  from assms tv tt sims cs len obtain es where
    es: "edges_loop sims cs (threshold_of thr) (length tt) [0..<length tt] = Inr es"
    by (cases "edges_loop sims cs (threshold_of thr) (length tt) [0..<length tt]")
       (simp_all add: plot_word_similarities_mds_def Let_def)
  from assms tv tt sims cs len es have
    r: "r = \<lparr>wm_top_terms = tt, wm_similarities = sims, wm_coords = cs, wm_edges = es\<rparr>"
    by (simp add: plot_word_similarities_mds_def Let_def)
  from es have "edges_loop (wm_similarities r) (wm_coords r) (threshold_of thr)
           (length (wm_top_terms r)) [0..<length (wm_top_terms r)] = Inr (wm_edges r)"
    by (simp add: r)
  moreover from tv sims have "\<exists>tv. index_all (transpose_matrix tfidf_matrix) ?ti = Inr tv \<and>
               cosine_similarity lib tv = Inr (wm_similarities r)"
    by (simp add: r)
  moreover from tt have "index_all feature_names ?ti = Inr (wm_top_terms r)"
    by (simp add: r)
  ultimately show ?thesis by blast
qed

lemma plot_word_similarities_mds_edges:
  assumes "plot_word_similarities_mds lib tfidf_matrix feature_names n_terms thr = Inr r"
  shows "set (wm_edges r) =
           {(i, j). i < j \<and> j < length (wm_top_terms r) \<and>
                    threshold_of thr < wm_similarities r ! i ! j}"
proof -
  from plot_word_similarities_mds_result [OF assms] have
    loop: "edges_loop (wm_similarities r) (wm_coords r) (threshold_of thr)
           (length (wm_top_terms r)) [0..<length (wm_top_terms r)] = Inr (wm_edges r)"
    by blast
  have "\<And>a b. (a, b) \<in> set (wm_edges r) \<longleftrightarrow>
      a < b \<and> b < length (wm_top_terms r) \<and> threshold_of thr < wm_similarities r ! a ! b"
    using edges_loop_mem [OF loop] by auto
  then show ?thesis by auto
qed

text \<open>
  C9. When \<^verbatim>\<open>plot_word_similarities_mds\<close> returns, the lines it has drawn join exactly the
  pairs \<open>i < j\<close> of top terms whose similarity is strictly above the threshold: above the
  caller's \<open>t\<close> when the call gives one, and above 0.3 when it gives none. The similarities
  are the library's cosine similarities of the top terms' columns.
\<close>

theorem edges_above_threshold:
  "(plot_word_similarities_mds lib tfidf_matrix feature_names n_terms (Some t) = Inr r \<longrightarrow>
      set (wm_edges r) =
        {(i, j). i < j \<and> j < length (wm_top_terms r) \<and> t < wm_similarities r ! i ! j}) \<and>
   (plot_word_similarities_mds lib tfidf_matrix feature_names n_terms None = Inr r' \<longrightarrow>
      set (wm_edges r') =
        {(i, j). i < j \<and> j < length (wm_top_terms r') \<and> 3 / 10 < wm_similarities r' ! i ! j}) \<and>
   (plot_word_similarities_mds lib tfidf_matrix feature_names n_terms thr = Inr r'' \<longrightarrow>
      (\<exists>term_vectors.
          index_all (transpose_matrix tfidf_matrix)
            (top_indices_of lib (mean_axis0 tfidf_matrix) n_terms) = Inr term_vectors \<and>
          cosine_similarity lib term_vectors = Inr (wm_similarities r'')) \<and>
      index_all feature_names (top_indices_of lib (mean_axis0 tfidf_matrix) n_terms)
        = Inr (wm_top_terms r''))"
proof (intro conjI impI)
  assume "plot_word_similarities_mds lib tfidf_matrix feature_names n_terms (Some t) = Inr r"
  from plot_word_similarities_mds_edges [OF this]
  show "set (wm_edges r) =
        {(i, j). i < j \<and> j < length (wm_top_terms r) \<and> t < wm_similarities r ! i ! j}"
    by (simp add: threshold_of_def)
next
  assume "plot_word_similarities_mds lib tfidf_matrix feature_names n_terms None = Inr r'"
  from plot_word_similarities_mds_edges [OF this]
  show "set (wm_edges r') =
        {(i, j). i < j \<and> j < length (wm_top_terms r') \<and> 3 / 10 < wm_similarities r' ! i ! j}"
    by (simp add: threshold_of_def)
next
  assume a: "plot_word_similarities_mds lib tfidf_matrix feature_names n_terms thr = Inr r''"
  from plot_word_similarities_mds_result [OF a]
  show "\<exists>term_vectors.
          index_all (transpose_matrix tfidf_matrix)
            (top_indices_of lib (mean_axis0 tfidf_matrix) n_terms) = Inr term_vectors \<and>
          cosine_similarity lib term_vectors = Inr (wm_similarities r'')"
    by blast
  from plot_word_similarities_mds_result [OF a]
  show "index_all feature_names (top_indices_of lib (mean_axis0 tfidf_matrix) n_terms)
        = Inr (wm_top_terms r'')"
    by blast
qed

text \<open>
  Three terms, the first two with similarity 1: with the threshold 1 no line is drawn, with
  the default threshold the line between the two is.
\<close>

theorem edges_above_threshold_witness:
  "plot_word_similarities_mds sample_library [[1, 0, 0], [0, 1, 1]] [''a'', ''b'', ''c''] 3 (Some 1)
     = Inr \<lparr>wm_top_terms = [''c'', ''b'', ''a''],
            wm_similarities = [[1, 1, 0], [1, 1, 0], [0, 0, 1]],
            wm_coords = [(0, 0), (0, 0), (0, 0)], wm_edges = []\<rparr> \<and>
   set ([] :: (nat \<times> nat) list) =
     {(i, j). i < j \<and> j < length [''c'', ''b'', ''a''] \<and>
              1 < [[1, 1, 0], [1, 1, 0], [0, 0, 1 :: rat]] ! i ! j} \<and>
   plot_word_similarities_mds sample_library [[1, 0, 0], [0, 1, 1]] [''a'', ''b'', ''c''] 3 None
     = Inr \<lparr>wm_top_terms = [''c'', ''b'', ''a''],
            wm_similarities = [[1, 1, 0], [1, 1, 0], [0, 0, 1]],
            wm_coords = [(0, 0), (0, 0), (0, 0)], wm_edges = [(0, 1)]\<rparr> \<and>
   set [(0::nat, 1::nat)] =
     {(i, j). i < j \<and> j < length [''c'', ''b'', ''a''] \<and>
              3 / 10 < [[1, 1, 0], [1, 1, 0], [0, 0, 1 :: rat]] ! i ! j} \<and>
   (\<exists>term_vectors.
      index_all (transpose_matrix [[1, 0, 0], [0, 1, 1]])
        (top_indices_of sample_library (mean_axis0 [[1, 0, 0], [0, 1, 1]]) 3) = Inr term_vectors \<and>
      cosine_similarity sample_library term_vectors = Inr [[1, 1, 0], [1, 1, 0], [0, 0, 1]]) \<and>
   index_all [''a'', ''b'', ''c''] (top_indices_of sample_library (mean_axis0 [[1, 0, 0], [0, 1, 1]]) 3)
     = Inr [''c'', ''b'', ''a'']"
proof -
  have h1: "plot_word_similarities_mds sample_library [[1, 0, 0], [0, 1, 1]]
             [''a'', ''b'', ''c''] 3 (Some 1)
     = Inr \<lparr>wm_top_terms = [''c'', ''b'', ''a''],
            wm_similarities = [[1, 1, 0], [1, 1, 0], [0, 0, 1]],
            wm_coords = [(0, 0), (0, 0), (0, 0)], wm_edges = []\<rparr>"
    by code_simp
  have h2: "plot_word_similarities_mds sample_library [[1, 0, 0], [0, 1, 1]]
             [''a'', ''b'', ''c''] 3 None
     = Inr \<lparr>wm_top_terms = [''c'', ''b'', ''a''],
            wm_similarities = [[1, 1, 0], [1, 1, 0], [0, 0, 1]],
            wm_coords = [(0, 0), (0, 0), (0, 0)], wm_edges = [(0, 1)]\<rparr>"
    by code_simp
  note inst = edges_above_threshold [of sample_library "[[1, 0, 0], [0, 1, 1]]"
      "[''a'', ''b'', ''c'']" 3 1 _ _ None]
  from inst h1 have c1: "set ([] :: (nat \<times> nat) list) =
     {(i, j). i < j \<and> j < length [''c'', ''b'', ''a''] \<and>
              1 < [[1, 1, 0], [1, 1, 0], [0, 0, 1 :: rat]] ! i ! j}"
    by fastforce
  from inst h2 have c2: "set [(0::nat, 1::nat)] =
     {(i, j). i < j \<and> j < length [''c'', ''b'', ''a''] \<and>
              3 / 10 < [[1, 1, 0], [1, 1, 0], [0, 0, 1 :: rat]] ! i ! j}"
    by fastforce
  from inst h2 have c3: "\<exists>term_vectors.
      index_all (transpose_matrix [[1, 0, 0], [0, 1, 1]])
        (top_indices_of sample_library (mean_axis0 [[1, 0, 0], [0, 1, 1]]) 3) = Inr term_vectors \<and>
      cosine_similarity sample_library term_vectors = Inr [[1, 1, 0], [1, 1, 0], [0, 0, 1]]"
    by fastforce
  from inst h2 have c4:
    "index_all [''a'', ''b'', ''c''] (top_indices_of sample_library (mean_axis0 [[1, 0, 0], [0, 1, 1]]) 3)
     = Inr [''c'', ''b'', ''a'']"
    by fastforce
  from h1 c1 h2 c2 c3 c4 show ?thesis by (intro conjI)
qed


subsection \<open>Vocabulary statistics\<close>

lemma counter_add_sum: "sum_list (map snd (counter_add acc w)) = sum_list (map snd acc) + 1"
  by (induction acc w rule: counter_add.induct) simp_all

lemma foldl_counter_add_sum:
  "sum_list (map snd (foldl counter_add acc ws)) = sum_list (map snd acc) + length ws"
  by (induction ws arbitrary: acc) (simp_all add: counter_add_sum)

lemma Counter_sum: "sum_list (map snd (Counter ws)) = length ws"
  by (simp add: Counter_def foldl_counter_add_sum)

lemma counter_add_fresh: "w \<notin> fst ` set acc \<Longrightarrow> counter_add acc w = acc @ [(w, 1)]"
  by (induction acc w rule: counter_add.induct) auto

lemma foldl_counter_add_distinct:
  "distinct ws \<Longrightarrow> set ws \<inter> fst ` set acc = {} \<Longrightarrow>
   foldl counter_add acc ws = acc @ map (\<lambda>w. (w, 1)) ws"
proof (induction ws arbitrary: acc)
  case Nil
  then show ?case by simp
next
  case (Cons w ws)
  from Cons.prems have fresh: "w \<notin> fst ` set acc" by auto
  have step: "counter_add acc w = acc @ [(w, 1)]"
    using fresh by (rule counter_add_fresh)
  have d: "distinct ws" using Cons.prems by simp
  have disj: "set ws \<inter> fst ` set (acc @ [(w, 1)]) = {}"
    using Cons.prems by auto
  show ?case
    using Cons.IH [OF d disj] by (simp add: step)
qed

lemma Counter_distinct: "distinct ws \<Longrightarrow> Counter ws = map (\<lambda>w. (w, 1)) ws"
  using foldl_counter_add_distinct [of ws "[]"] by (simp add: Counter_def)

lemma length_cumsum_from: "length (cumsum_from a xs) = length xs"
  by (induction xs arbitrary: a) simp_all

lemma cumsum_from_sorted:
  "(\<And>x. x \<in> set xs \<Longrightarrow> 0 \<le> x) \<Longrightarrow>
   sorted (cumsum_from a xs) \<and> (\<forall>y \<in> set (cumsum_from a xs). a \<le> y)"
proof (induction xs arbitrary: a)
  case Nil
  then show ?case by simp
next
  case (Cons x xs)
  have x: "0 \<le> x" using Cons.prems by simp
  have rest: "\<And>y. y \<in> set xs \<Longrightarrow> 0 \<le> y" using Cons.prems by simp
  from Cons.IH [of "a + x", OF rest] have
    s: "sorted (cumsum_from (a + x) xs)" and
    b: "\<forall>y \<in> set (cumsum_from (a + x) xs). a + x \<le> y"
    by blast+
  from b x have b': "\<forall>y \<in> set (cumsum_from (a + x) xs). a \<le> y" by fastforce
  show ?case using s b b' x by simp
qed

lemma analyze_vocabulary_result:
  assumes "analyze_vocabulary lib texts min_freq = Inr (freq_df, stats)"
  shows "\<exists>X words rows.
      fit_vocabulary lib (sklearn_english lib) None 1 (map (preprocess_text lib) texts)
        = Inr (X, words) \<and>
      rows = sort_values_desc lib (\<lambda>(w, f, p). rat_of_nat f)
               (map (\<lambda>(w, f). (w, f, rat_of_nat f / rat_of_nat (length words) * 100))
                  (Counter words)) \<and>
      freq_df = map (\<lambda>((w, f, p), c).
                   \<lparr>word = w, frequency = f, percentage = p, cumulative_percentage = c\<rparr>)
                  (zip rows (cumsum (map (\<lambda>(w, f, p). p) rows)))"
proof (cases "fit_vocabulary lib (sklearn_english lib) None 1 (map (preprocess_text lib) texts)")
  case (Inl e)
  with assms show ?thesis by (simp add: analyze_vocabulary_def)
next
  case (Inr r)
  obtain X words where r: "r = (X, words)" by (cases r)
  from assms Inr r show ?thesis
    by (simp add: analyze_vocabulary_def Let_def)
qed

lemma map_percentage_rows:
  "length cs = length rows \<Longrightarrow>
   map percentage (map (\<lambda>((w, f, p), c).
       \<lparr>word = w, frequency = f, percentage = p, cumulative_percentage = c\<rparr>) (zip rows cs))
   = map (\<lambda>(w, f, p). p) rows"
proof (induction rows arbitrary: cs)
  case Nil
  then show ?case by simp
next
  case (Cons r rows)
  then obtain c cs' where cs: "cs = c # cs'" by (cases cs) simp_all
  with Cons show ?case by (cases r) simp
qed

lemma map_frequency_rows:
  "length cs = length rows \<Longrightarrow>
   map frequency (map (\<lambda>((w, f, p), c).
       \<lparr>word = w, frequency = f, percentage = p, cumulative_percentage = c\<rparr>) (zip rows cs))
   = map (\<lambda>(w, f, p). f) rows"
proof (induction rows arbitrary: cs)
  case Nil
  then show ?case by simp
next
  case (Cons r rows)
  then obtain c cs' where cs: "cs = c # cs'" by (cases cs) simp_all
  with Cons show ?case by (cases r) simp
qed

lemma map_cumulative_rows:
  "length cs = length rows \<Longrightarrow>
   map cumulative_percentage (map (\<lambda>((w, f, p), c).
       \<lparr>word = w, frequency = f, percentage = p, cumulative_percentage = c\<rparr>) (zip rows cs))
   = cs"
proof (induction rows arbitrary: cs)
  case Nil
  then show ?case by simp
next
  case (Cons r rows)
  then obtain c cs' where cs: "cs = c # cs'" by (cases cs) simp_all
  with Cons show ?case by (cases r) simp
qed

lemma sum_list_sort_values_desc:
  "sum_list (map (g :: 'a \<Rightarrow> rat) (sort_values_desc lib k rows)) = sum_list (map g rows)"
proof -
  have "mset (map g (sort_values_desc lib k rows)) = mset (map g rows)"
    by (simp add: sort_values_desc_mset)
  then have "sum_mset (mset (map g (sort_values_desc lib k rows))) = sum_mset (mset (map g rows))"
    by (rule arg_cong)
  then show ?thesis by (simp only: sum_mset_sum_list)
qed

lemma sorted_rev_rat_of_nat:
  "sorted (rev (map (\<lambda>r. rat_of_nat (f r)) rows)) \<Longrightarrow> sorted (rev (map f rows))"
  by (simp add: sorted_rev_map_iff)

lemma sum_percentages:
  "sum_list (map (\<lambda>(w, f, p). p)
      (map (\<lambda>(w, f). (w, f, rat_of_nat f / t * 100)) (cnt :: (string \<times> nat) list)))
   = rat_of_nat (sum_list (map snd cnt)) / t * 100"
  by (induction cnt) (auto simp: add_divide_distrib distrib_right)

text \<open>
  C3. When \<^verbatim>\<open>analyze_vocabulary\<close> returns, the percentage column of its frequency table
  sums to 100, the cumulative-percentage column never decreases from one row to the next,
  and the rows are in descending order of frequency.
\<close>

theorem percentages_sum_to_100:
  assumes "analyze_vocabulary lib texts min_freq = Inr (freq_df, stats)"
  shows "sum_list (map percentage freq_df) = 100 \<and>
         sorted (map cumulative_percentage freq_df) \<and>
         sorted (rev (map frequency freq_df))"
proof -
  from analyze_vocabulary_result [OF assms] obtain X words rows where
    fit: "fit_vocabulary lib (sklearn_english lib) None 1 (map (preprocess_text lib) texts)
        = Inr (X, words)" and
    rows: "rows = sort_values_desc lib (\<lambda>(w, f, p). rat_of_nat f)
               (map (\<lambda>(w, f). (w, f, rat_of_nat f / rat_of_nat (length words) * 100))
                  (Counter words))" and
    df: "freq_df = map (\<lambda>((w, f, p), c).
                   \<lparr>word = w, frequency = f, percentage = p, cumulative_percentage = c\<rparr>)
                  (zip rows (cumsum (map (\<lambda>(w, f, p). p) rows)))"
    by blast
  define cs where "cs = cumsum (map (\<lambda>(w, f, p). p) rows)"
  have len: "length cs = length rows"
    by (simp add: cs_def cumsum_def length_cumsum_from)
  have ne: "words \<noteq> []"
    using fit_vocabulary_distinct [OF fit] by simp
  have pct: "map percentage freq_df = map (\<lambda>(w, f, p). p) rows"
    unfolding df cs_def [symmetric] using len by (rule map_percentage_rows)
  have cum: "map cumulative_percentage freq_df = cs"
    unfolding df cs_def [symmetric] using len by (rule map_cumulative_rows)
  have frq: "map frequency freq_df = map (\<lambda>(w, f, p). f) rows"
    unfolding df cs_def [symmetric] using len by (rule map_frequency_rows)
  have "sum_list (map percentage freq_df)
      = rat_of_nat (sum_list (map snd (Counter words))) / rat_of_nat (length words) * 100"
    by (simp only: pct rows sum_list_sort_values_desc sum_percentages)
  also have "\<dots> = 100"
    using ne by (simp add: Counter_sum)
  finally have total: "sum_list (map percentage freq_df) = 100" .
  have nonneg: "\<And>x. x \<in> set (map (\<lambda>(w, f, p). p) rows) \<Longrightarrow> 0 \<le> x"
    by (auto simp: rows set_sort_values_desc)
  have mono: "sorted (map cumulative_percentage freq_df)"
    unfolding cum cs_def cumsum_def using cumsum_from_sorted [OF nonneg] by blast
  have "sorted (rev (map (\<lambda>r. rat_of_nat ((\<lambda>(w, f, p). f) r)) rows))"
    using sort_values_desc_sorted [of "\<lambda>(w, f, p). rat_of_nat f" lib] unfolding rows
    by (simp add: case_prod_unfold)
  then have desc: "sorted (rev (map frequency freq_df))"
    unfolding frq by (rule sorted_rev_rat_of_nat)
  from total mono desc show ?thesis by blast
qed

theorem percentages_sum_to_100_witness:
  "analyze_vocabulary sample_library [''b a the'', ''a''] 2
     = Inr ([\<lparr>word = ''a'', frequency = 1, percentage = 50, cumulative_percentage = 50\<rparr>,
           \<lparr>word = ''b'', frequency = 1, percentage = 50, cumulative_percentage = 100\<rparr>],
            \<lparr>total_words = 2, unique_words = 2, words_min_freq = 0, coverage_top_1000 = 100\<rparr>) \<and>
   (sum_list (map percentage [\<lparr>word = ''a'', frequency = 1, percentage = 50, cumulative_percentage = 50\<rparr>,
           \<lparr>word = ''b'', frequency = 1, percentage = 50, cumulative_percentage = 100\<rparr>]) = 100 \<and>
    sorted (map cumulative_percentage [\<lparr>word = ''a'', frequency = 1, percentage = 50, cumulative_percentage = 50\<rparr>,
           \<lparr>word = ''b'', frequency = 1, percentage = 50, cumulative_percentage = 100\<rparr>]) \<and>
    sorted (rev (map frequency [\<lparr>word = ''a'', frequency = 1, percentage = 50, cumulative_percentage = 50\<rparr>,
           \<lparr>word = ''b'', frequency = 1, percentage = 50, cumulative_percentage = 100\<rparr>])))"
proof -
  have h: "analyze_vocabulary sample_library [''b a the'', ''a''] 2
     = Inr ([\<lparr>word = ''a'', frequency = 1, percentage = 50, cumulative_percentage = 50\<rparr>,
           \<lparr>word = ''b'', frequency = 1, percentage = 50, cumulative_percentage = 100\<rparr>],
            \<lparr>total_words = 2, unique_words = 2, words_min_freq = 0, coverage_top_1000 = 100\<rparr>)"
    by code_simp
  from h percentages_sum_to_100 [OF h] show ?thesis by (rule conjI)
qed

text \<open>
  C4. When \<^verbatim>\<open>analyze_vocabulary\<close> returns, every row of its frequency table has the
  frequency 1: the counter runs over the vectorizer's feature names, which are distinct.
\<close>

theorem every_frequency_is_one:
  assumes "analyze_vocabulary lib texts min_freq = Inr (freq_df, stats)"
  shows "\<forall>row \<in> set freq_df. frequency row = 1"
proof -
  from analyze_vocabulary_result [OF assms] obtain X words rows where
    fit: "fit_vocabulary lib (sklearn_english lib) None 1 (map (preprocess_text lib) texts)
        = Inr (X, words)" and
    rows: "rows = sort_values_desc lib (\<lambda>(w, f, p). rat_of_nat f)
               (map (\<lambda>(w, f). (w, f, rat_of_nat f / rat_of_nat (length words) * 100))
                  (Counter words))" and
    df: "freq_df = map (\<lambda>((w, f, p), c).
                   \<lparr>word = w, frequency = f, percentage = p, cumulative_percentage = c\<rparr>)
                  (zip rows (cumsum (map (\<lambda>(w, f, p). p) rows)))"
    by blast
  define cs where "cs = cumsum (map (\<lambda>(w, f, p). p) rows)"
  have len: "length cs = length rows"
    by (simp add: cs_def cumsum_def length_cumsum_from)
  have frq: "map frequency freq_df = map (\<lambda>(w, f, p). f) rows"
    unfolding df cs_def [symmetric] using len by (rule map_frequency_rows)
  have d: "distinct words"
    using fit_vocabulary_distinct [OF fit] by simp
  have cnt: "Counter words = map (\<lambda>w. (w, 1)) words"
    using d by (rule Counter_distinct)
  have one: "\<And>f. f \<in> set (map (\<lambda>(w, f, p). f) rows) \<Longrightarrow> f = 1"
    by (auto simp: rows set_sort_values_desc cnt)
  show ?thesis
  proof
    fix row assume "row \<in> set freq_df"
    then have "frequency row \<in> set (map frequency freq_df)" by simp
    then show "frequency row = 1" unfolding frq by (rule one)
  qed
qed

theorem every_frequency_is_one_witness:
  "analyze_vocabulary sample_library [''b a the'', ''a''] 2
     = Inr ([\<lparr>word = ''a'', frequency = 1, percentage = 50, cumulative_percentage = 50\<rparr>,
           \<lparr>word = ''b'', frequency = 1, percentage = 50, cumulative_percentage = 100\<rparr>],
            \<lparr>total_words = 2, unique_words = 2, words_min_freq = 0, coverage_top_1000 = 100\<rparr>) \<and>
   map frequency
     [\<lparr>word = ''a'', frequency = 1, percentage = 50, cumulative_percentage = 50\<rparr>,
      \<lparr>word = ''b'', frequency = 1, percentage = 50, cumulative_percentage = 100\<rparr>]
     = [1, 1]"
proof -
  have h: "analyze_vocabulary sample_library [''b a the'', ''a''] 2
     = Inr ([\<lparr>word = ''a'', frequency = 1, percentage = 50, cumulative_percentage = 50\<rparr>,
           \<lparr>word = ''b'', frequency = 1, percentage = 50, cumulative_percentage = 100\<rparr>],
            \<lparr>total_words = 2, unique_words = 2, words_min_freq = 0, coverage_top_1000 = 100\<rparr>)"
    by code_simp
  from h every_frequency_is_one [OF h] show ?thesis by simp
qed

text \<open>
  C7. When no term of any text survives preprocessing and stop-word removal, in particular
  when there is no text at all, \<^verbatim>\<open>analyze_vocabulary\<close> fails: fitting the vectorizer raises
  ValueError for the empty vocabulary.
\<close>

theorem empty_corpus_rejected:
  assumes "\<forall>t \<in> set texts. analyze lib (sklearn_english lib) (preprocess_text lib t) = []"
  shows "analyze_vocabulary lib texts min_freq =
           Inl (ValueError ''empty vocabulary; perhaps the documents only contain stop words'')"
proof -
  have c: "concat (map (analyze lib (sklearn_english lib)) (map (preprocess_text lib) texts)) = []"
    using assms by simp
  have v: "sort (remdups (concat (map (analyze lib (sklearn_english lib))
      (map (preprocess_text lib) texts)))) = []"
    unfolding c by simp
  have "fit_vocabulary lib (sklearn_english lib) None 1 (map (preprocess_text lib) texts)
      = Inl (ValueError ''empty vocabulary; perhaps the documents only contain stop words'')"
    unfolding fit_vocabulary_def Let_def v by simp
  then show ?thesis by (simp add: analyze_vocabulary_def)
qed

theorem empty_corpus_rejected_witness:
  "analyze sample_library (sklearn_english sample_library)
     (preprocess_text sample_library ''the'') = [] \<and>
   analyze sample_library (sklearn_english sample_library)
     (preprocess_text sample_library ''the the'') = [] \<and>
   analyze_vocabulary sample_library [''the'', ''the the''] 2 =
     Inl (ValueError ''empty vocabulary; perhaps the documents only contain stop words'')"
proof -
  have h1: "analyze sample_library (sklearn_english sample_library)
     (preprocess_text sample_library ''the'') = []"
    by code_simp
  have h2: "analyze sample_library (sklearn_english sample_library)
     (preprocess_text sample_library ''the the'') = []"
    by code_simp
  have h: "\<forall>t \<in> set [''the'', ''the the''].
      analyze sample_library (sklearn_english sample_library)
        (preprocess_text sample_library t) = []"
    using h1 h2 by simp
  from h1 h2 empty_corpus_rejected [OF h] show ?thesis by (intro conjI)
qed


subsection \<open>The projector and the number of items\<close>






subsection \<open>The emphasized items\<close>

text \<open>
  C1, evaluated on the code. For the matrix with the rows \<open>[1, 1]\<close> and \<open>[3, 0]\<close> the row
  means are \<open>1\<close> and \<open>3/2\<close> and the column means are \<open>2\<close> and \<open>1/2\<close>. Asked for the one
  top item, \<^verbatim>\<open>plot_similarities\<close> annotates the first document, which has the smaller
  row mean, when the items are documents, and the second term, which has the smaller column
  mean, when the items are terms: it takes the mean along the other axis. With more terms
  than documents the position it finds can lie past the labels, and the call raises
  IndexError.
\<close>

theorem emphasis_takes_other_axis:
  "mean_axis1 [[1, 1], [3, 0]] = [1, 3 / 2] \<and>
   mean_axis0 [[1, 1], [3, 0]] = [2, 1 / 2] \<and>
   plot_similarities sample_library [[1, 1], [3, 0]] [''d0'', ''d1''] ''mds'' True False True
       (TopInt 1)
     = Inr \<lparr>proj_coords = [(0, 0), (0, 0)], labels_to_annotate = [''d0''],
            coords_to_annotate = [(0, 0)], colors = [Black], scatter_colors = None,
            annotations = [(''d0'', (0, 0), Black)]\<rparr> \<and>
   plot_similarities sample_library [[1, 1], [3, 0]] [''t0'', ''t1''] ''mds'' False False True
       (TopInt 1)
     = Inr \<lparr>proj_coords = [(0, 0), (0, 0)], labels_to_annotate = [''t1''],
            coords_to_annotate = [(0, 0)], colors = [Black], scatter_colors = None,
            annotations = [(''t1'', (0, 0), Black)]\<rparr> \<and>
   plot_similarities sample_library [[1, 0, 0], [0, 0, 5]] [''d0'', ''d1''] ''mds'' True False
       True (TopInt 1)
     = Inl IndexError"
  by code_simp


subsection \<open>The perplexity passed to t-SNE\<close>

lemma index_all_error: "index_all xs is = Inl e \<Longrightarrow> e = IndexError"
  by (induction "is" arbitrary: e) (auto split: if_splits sum.splits)

lemma plot_similarities_coords:
  assumes "plot_similarities lib tfidf_matrix labels method is_documents label_color
             use_text_annotations top_terms = Inr p"
  shows "reduce_coords lib
           (if \<not> is_documents then transpose_matrix tfidf_matrix else tfidf_matrix)
           labels method = Inr (proj_coords p)"
proof -
  let ?m = "if \<not> is_documents then transpose_matrix tfidf_matrix else tfidf_matrix"
  from assms obtain cs where cs: "reduce_coords lib ?m labels method = Inr cs"
    by (cases "reduce_coords lib ?m labels method")
       (simp_all add: plot_similarities_def Let_def)
  from assms cs have "proj_coords p = cs"
    by (auto simp: plot_similarities_def Let_def split: sum.splits prod.splits)
  with cs show ?thesis by simp
qed

lemma plot_similarities_reduce_fails:
  assumes "reduce_coords lib
           (if \<not> is_documents then transpose_matrix tfidf_matrix else tfidf_matrix)
           labels method = Inl e"
  shows "plot_similarities lib tfidf_matrix labels method is_documents label_color
             use_text_annotations top_terms = Inl e"
  using assms by (simp add: plot_similarities_def Let_def)

lemma plot_word_similarities_tsne_coords:
  assumes "plot_word_similarities_tsne lib tfidf_matrix feature_names n_highlight = Inr r"
  shows "fit_transform lib (word_tsne_estimator feature_names) (transpose_matrix tfidf_matrix)
           = Inr (wt_coords r)"
  using assms
  by (auto simp: plot_word_similarities_tsne_def Let_def split: sum.splits)

lemma plot_word_similarities_tsne_fails:
  assumes "index_all feature_names (top_indices_of lib (mean_axis0 tfidf_matrix) n_highlight)
             = Inr top_terms"
    and "fit_transform lib (word_tsne_estimator feature_names) (transpose_matrix tfidf_matrix)
           = Inl e"
  shows "plot_word_similarities_tsne lib tfidf_matrix feature_names n_highlight = Inl e"
  using assms by (simp add: plot_word_similarities_tsne_def Let_def)

text \<open>
  C10, as the code has it. With the method \<^verbatim>\<open>tsne\<close>, \<^verbatim>\<open>plot_similarities\<close> calls the
  embedding \<^verbatim>\<open>TSNE\<close> with the perplexity \<open>min 30 (n - 1)\<close> for \<open>n\<close> labels: the call's error is
  the function's error, and the call's coordinates are the coordinates of every projection
  the function returns. That perplexity is at most \<open>n - 1\<close> for every \<open>n\<close>.
  \<^verbatim>\<open>plot_word_similarities_tsne\<close>, once the top terms are found, calls \<^verbatim>\<open>TSNE\<close> with the
  perplexity \<open>min 30 (n / 4)\<close> for \<open>n\<close> feature names, which is at most \<open>n - 1\<close> as soon
  as there are at least two of them.
\<close>

theorem perplexity_clamped:
  "(case fit_transform lib (TSNE 2 (of_int (min 30 (int (length labels) - 1))) 42)
           (if \<not> is_documents then transpose_matrix tfidf_matrix else tfidf_matrix) of
      Inl e \<Rightarrow>
        plot_similarities lib tfidf_matrix labels ''tsne'' is_documents label_color
          use_text_annotations top_terms = Inl e
    | Inr cs \<Rightarrow>
        (case plot_similarities lib tfidf_matrix labels ''tsne'' is_documents label_color
                use_text_annotations top_terms of
           Inl e \<Rightarrow> True
         | Inr p \<Rightarrow> proj_coords p = cs)) \<and>
   (of_int (min 30 (int (length labels) - 1)) :: rat) \<le> of_int (int (length labels) - 1) \<and>
   (case index_all feature_names (top_indices_of lib (mean_axis0 term_matrix) n_highlight) of
      Inl e \<Rightarrow> plot_word_similarities_tsne lib term_matrix feature_names n_highlight = Inl e
    | Inr top_terms' \<Rightarrow>
        (case fit_transform lib (TSNE 2 (min 30 (rat_of_nat (length feature_names) / 4)) 42)
                (transpose_matrix term_matrix) of
           Inl e \<Rightarrow> plot_word_similarities_tsne lib term_matrix feature_names n_highlight = Inl e
         | Inr cs \<Rightarrow>
             (case plot_word_similarities_tsne lib term_matrix feature_names n_highlight of
                Inl e \<Rightarrow> e = IndexError
              | Inr r \<Rightarrow> wt_coords r = cs))) \<and>
   (2 \<le> length feature_names \<longrightarrow>
      min 30 (rat_of_nat (length feature_names) / 4) \<le> of_int (int (length feature_names) - 1))"
proof (intro conjI)
  let ?m = "if \<not> is_documents then transpose_matrix tfidf_matrix else tfidf_matrix"
  let ?est = "TSNE 2 (of_int (min 30 (int (length labels) - 1))) 42"
  have rc: "reduce_coords lib ?m labels ''tsne'' = fit_transform lib ?est ?m"
    by (simp add: reduce_coords_def tsne_estimator_def)
  show "case fit_transform lib ?est ?m of
      Inl e \<Rightarrow>
        plot_similarities lib tfidf_matrix labels ''tsne'' is_documents label_color
          use_text_annotations top_terms = Inl e
    | Inr cs \<Rightarrow>
        (case plot_similarities lib tfidf_matrix labels ''tsne'' is_documents label_color
                use_text_annotations top_terms of
           Inl e \<Rightarrow> True
         | Inr p \<Rightarrow> proj_coords p = cs)"
  proof (cases "fit_transform lib ?est ?m")
    case (Inl e)
    with rc have "reduce_coords lib ?m labels ''tsne'' = Inl e" by simp
    from plot_similarities_reduce_fails [OF this] Inl show ?thesis by simp
  next
    case (Inr cs)
    show ?thesis
    proof (cases "plot_similarities lib tfidf_matrix labels ''tsne'' is_documents label_color
                use_text_annotations top_terms")
      case (Inl e)
      with Inr show ?thesis by simp
    next
      case right: (Inr p)
      from plot_similarities_coords [OF right] rc Inr have "proj_coords p = cs" by simp
      with Inr right show ?thesis by simp
    qed
  qed
next
  show "(of_int (min 30 (int (length labels) - 1)) :: rat) \<le> of_int (int (length labels) - 1)"
    by simp
next
  let ?ti = "top_indices_of lib (mean_axis0 term_matrix) n_highlight"
  let ?est = "TSNE 2 (min 30 (rat_of_nat (length feature_names) / 4)) 42"
  let ?pw = "plot_word_similarities_tsne lib term_matrix feature_names n_highlight"
  have est: "word_tsne_estimator feature_names = ?est"
    by (simp add: word_tsne_estimator_def)
  show "case index_all feature_names ?ti of
      Inl e \<Rightarrow> ?pw = Inl e
    | Inr top_terms' \<Rightarrow>
        (case fit_transform lib ?est (transpose_matrix term_matrix) of
           Inl e \<Rightarrow> ?pw = Inl e
         | Inr cs \<Rightarrow> (case ?pw of Inl e \<Rightarrow> e = IndexError | Inr r \<Rightarrow> wt_coords r = cs))"
  proof (cases "index_all feature_names ?ti")
    case (Inl e)
    then show ?thesis by (simp add: plot_word_similarities_tsne_def Let_def)
  next
    case tt: (Inr top_terms')
    show ?thesis
    proof (cases "fit_transform lib ?est (transpose_matrix term_matrix)")
      case (Inl e)
      with est have "fit_transform lib (word_tsne_estimator feature_names)
          (transpose_matrix term_matrix) = Inl e"
        by simp
      from plot_word_similarities_tsne_fails [OF tt this] tt Inl show ?thesis by simp
    next
      case cs: (Inr cs)
      show ?thesis
      proof (cases ?pw)
        case (Inl e)
        from Inl tt cs est have "e = IndexError"
          by (auto simp: plot_word_similarities_tsne_def Let_def index_all_error
              split: sum.splits)
        with tt cs Inl show ?thesis by simp
      next
        case (Inr r)
        from plot_word_similarities_tsne_coords [OF Inr] est cs have "wt_coords r = cs"
          by simp
        with tt cs Inr show ?thesis by simp
      qed
    qed
  qed
next
  show "2 \<le> length feature_names \<longrightarrow>
      min 30 (rat_of_nat (length feature_names) / 4) \<le> of_int (int (length feature_names) - 1)"
  proof
    assume two: "2 \<le> length feature_names"
    define n :: rat where "n = of_nat (length feature_names)"
    from two have "2 \<le> n" by (simp add: n_def)
    then have "n / 4 \<le> n - 1" by simp
    then have "min 30 (n / 4) \<le> n - 1" by simp
    then show "min 30 (rat_of_nat (length feature_names) / 4)
        \<le> of_int (int (length feature_names) - 1)"
      by (simp add: n_def)
  qed
qed

text \<open>
  Three terms and two documents, with a t-SNE that accepts a perplexity up to the number of
  rows minus one: both functions pass a perplexity it accepts, \<open>1\<close> and \<open>3/4\<close>.
\<close>

theorem perplexity_clamped_witness:
  "(2::nat) \<le> length [''x'', ''y'', ''z''] \<and>
   min 30 (rat_of_nat (length [''x'', ''y'', ''z'']) / 4)
     \<le> of_int (int (length [''x'', ''y'', ''z'']) - 1) \<and>
   (of_int (min 30 (int (length [''d0'', ''d1'']) - 1)) :: rat)
     \<le> of_int (int (length [''d0'', ''d1'']) - 1) \<and>
   fit_transform bounded_library (TSNE 2 (of_int (min 30 (int (length [''d0'', ''d1'']) - 1))) 42)
       [[1, 0, 2], [0, 1, 0]]
     = Inr [(0, 0), (0, 0)] \<and>
   (case plot_similarities bounded_library [[1, 0, 2], [0, 1, 0]] [''d0'', ''d1''] ''tsne'' True
           False True TopNone of
      Inl e \<Rightarrow> True
    | Inr p \<Rightarrow> proj_coords p = [(0, 0), (0, 0)]) \<and>
   fit_transform bounded_library
       (TSNE 2 (min 30 (rat_of_nat (length [''x'', ''y'', ''z'']) / 4)) 42)
       (transpose_matrix [[1, 0, 2], [0, 1, 0]])
     = Inr [(0, 0), (0, 0), (0, 0)] \<and>
   (case plot_word_similarities_tsne bounded_library [[1, 0, 2], [0, 1, 0]]
           [''x'', ''y'', ''z''] 1 of
      Inl e \<Rightarrow> e = IndexError
    | Inr r \<Rightarrow> wt_coords r = [(0, 0), (0, 0), (0, 0)])"
proof -
  note inst = perplexity_clamped [where lib = bounded_library and labels = "[''d0'', ''d1'']"
      and is_documents = True and tfidf_matrix = "[[1, 0, 2], [0, 1, 0]]"
      and label_color = False and use_text_annotations = True and top_terms = TopNone
      and feature_names = "[''x'', ''y'', ''z'']" and term_matrix = "[[1, 0, 2], [0, 1, 0]]"
      and n_highlight = 1]
  have two: "(2::nat) \<le> length [''x'', ''y'', ''z'']"
    by simp
  have f1: "fit_transform bounded_library
       (TSNE 2 (of_int (min 30 (int (length [''d0'', ''d1'']) - 1))) 42) [[1, 0, 2], [0, 1, 0]]
     = Inr [(0, 0), (0, 0)]"
    by (simp add: bounded_library_def sample_library_def)
  have f2: "fit_transform bounded_library
       (TSNE 2 (min 30 (rat_of_nat (length [''x'', ''y'', ''z'']) / 4)) 42)
       (transpose_matrix [[1, 0, 2], [0, 1, 0]])
     = Inr [(0, 0), (0, 0), (0, 0)]"
    by code_simp
  have ti: "index_all [''x'', ''y'', ''z''] (top_indices_of bounded_library (mean_axis0 [[1, 0, 2], [0, 1, 0]]) 1)
     = Inr [''z'']"
    by code_simp
  from inst two have c2: "min 30 (rat_of_nat (length [''x'', ''y'', ''z'']) / 4)
     \<le> of_int (int (length [''x'', ''y'', ''z'']) - 1)"
    by blast
  from inst have c3: "(of_int (min 30 (int (length [''d0'', ''d1'']) - 1)) :: rat)
     \<le> of_int (int (length [''d0'', ''d1'']) - 1)"
    by blast
  from inst have "case fit_transform bounded_library
           (TSNE 2 (of_int (min 30 (int (length [''d0'', ''d1'']) - 1))) 42)
           (if \<not> True then transpose_matrix [[1, 0, 2], [0, 1, 0]] else [[1, 0, 2], [0, 1, 0]]) of
      Inl e \<Rightarrow>
        plot_similarities bounded_library [[1, 0, 2], [0, 1, 0]] [''d0'', ''d1''] ''tsne'' True
          False True TopNone = Inl e
    | Inr cs \<Rightarrow>
        (case plot_similarities bounded_library [[1, 0, 2], [0, 1, 0]] [''d0'', ''d1''] ''tsne''
                True False True TopNone of
           Inl e \<Rightarrow> True
         | Inr p \<Rightarrow> proj_coords p = cs)"
    by (rule conjunct1)
  then have c5: "case plot_similarities bounded_library [[1, 0, 2], [0, 1, 0]] [''d0'', ''d1'']
           ''tsne'' True False True TopNone of
      Inl e \<Rightarrow> True
    | Inr p \<Rightarrow> proj_coords p = [(0, 0), (0, 0)]"
    using f1 by simp
  from inst have "case index_all [''x'', ''y'', ''z'']
           (top_indices_of bounded_library (mean_axis0 [[1, 0, 2], [0, 1, 0]]) 1) of
      Inl e \<Rightarrow>
        plot_word_similarities_tsne bounded_library [[1, 0, 2], [0, 1, 0]] [''x'', ''y'', ''z''] 1
          = Inl e
    | Inr top_terms' \<Rightarrow>
        (case fit_transform bounded_library
                (TSNE 2 (min 30 (rat_of_nat (length [''x'', ''y'', ''z'']) / 4)) 42)
                (transpose_matrix [[1, 0, 2], [0, 1, 0]]) of
           Inl e \<Rightarrow>
             plot_word_similarities_tsne bounded_library [[1, 0, 2], [0, 1, 0]]
               [''x'', ''y'', ''z''] 1 = Inl e
         | Inr cs \<Rightarrow>
             (case plot_word_similarities_tsne bounded_library [[1, 0, 2], [0, 1, 0]]
                     [''x'', ''y'', ''z''] 1 of
                Inl e \<Rightarrow> e = IndexError
              | Inr r \<Rightarrow> wt_coords r = cs))"
    by blast
  then have c7: "case plot_word_similarities_tsne bounded_library [[1, 0, 2], [0, 1, 0]]
           [''x'', ''y'', ''z''] 1 of
      Inl e \<Rightarrow> e = IndexError
    | Inr r \<Rightarrow> wt_coords r = [(0, 0), (0, 0), (0, 0)]"
    unfolding ti f2 by simp
  from two c2 c3 f1 c5 f2 c7 show ?thesis by (intro conjI)
qed

text \<open>
  With a single term, \<^verbatim>\<open>plot_word_similarities_tsne\<close> passes the perplexity \<open>1/4\<close>, which
  is more than \<open>1 - 1 = 0\<close>: a t-SNE that accepts a perplexity up to the number of rows
  minus one rejects the call.
\<close>

theorem perplexity_word_tsne_counterexample:
  "\<not> min 30 (rat_of_nat (length [''climate'']) / 4) \<le> of_int (int (length [''climate'']) - 1) \<and>
   plot_word_similarities_tsne bounded_library [[1]] [''climate''] 5
     = Inl (ValueError ''perplexity above n_samples - 1'')"
proof
  show "\<not> min 30 (rat_of_nat (length [''climate'']) / 4)
      \<le> of_int (int (length [''climate'']) - 1)"
    by simp
next
  show "plot_word_similarities_tsne bounded_library [[1]] [''climate''] 5
     = Inl (ValueError ''perplexity above n_samples - 1'')"
    by code_simp
qed

end
